theory Spec2Isabelle
  imports Complex_Main "HOL-Library.Word"
begin

section \<open>Double-precision arithmetic\<close>

text \<open>
  JavaScript numbers are IEEE 754 binary64 values. A number is modelled by the real it
  denotes, and every arithmetic operation of the source by the exact result rounded to the
  nearest double, ties to even (\<open>fl\<close>): \<open>bexp x\<close> is the exponent of the binade of \<open>x\<close>,
  \<open>ulp x\<close> the spacing of the doubles in that binade (53 significant bits), \<open>roundEven\<close>
  rounding to the nearest integer with ties to even. A decimal literal of the source that
  is not a double, such as \<^verbatim>\<open>0.2\<close>, is \<open>fl 0.2\<close>.

  Not modelled: subnormal numbers (below \<open>2 ^ -1022\<close>), overflow and \<^verbatim>\<open>NaN\<close>; the
  quantities of this program (times in milliseconds, pixel coordinates, values of the sine
  and their products) stay inside the normal range. A division by zero, which yields an
  infinity or \<^verbatim>\<open>NaN\<close> in the source, yields 0 in HOL; the one quotient whose divisor is
  not a constant is guarded where it is used.
\<close>

definition bexp :: "real \<Rightarrow> int" where
  "bexp x = \<lfloor>log 2 \<bar>x\<bar>\<rfloor>"

definition ulp :: "real \<Rightarrow> real" where
  "ulp x = power_int 2 (bexp x - 52)"

definition roundEven :: "real \<Rightarrow> int" where
  "roundEven y =
     (let n = \<lfloor>y\<rfloor>; r = y - of_int n
      in if r < 1 / 2 then n
         else if 1 / 2 < r then n + 1
         else if even n then n else n + 1)"

definition fl :: "real \<Rightarrow> real" where
  "fl x = (if x = 0 then 0 else of_int (roundEven (x / ulp x)) * ulp x)"

definition fadd :: "real \<Rightarrow> real \<Rightarrow> real" where
  "fadd a b = fl (a + b)"

definition fsub :: "real \<Rightarrow> real \<Rightarrow> real" where
  "fsub a b = fl (a - b)"

definition fmul :: "real \<Rightarrow> real \<Rightarrow> real" where
  "fmul a b = fl (a * b)"

definition fdiv :: "real \<Rightarrow> real \<Rightarrow> real" where
  "fdiv a b = fl (a / b)"

text \<open>
  ECMAScript leaves the accuracy of \<^verbatim>\<open>Math.sin\<close> and \<^verbatim>\<open>Math.pow\<close> to the engine, so
  the two functions are parameters of the model. \<^verbatim>\<open>Math.floor\<close> is exact, and
  \<^verbatim>\<open>Math.min\<close> is \<open>min\<close>.
\<close>

record math_lib =
  math_sin :: "real \<Rightarrow> real"
  math_pow :: "real \<Rightarrow> real \<Rightarrow> real"

definition Math_floor :: "real \<Rightarrow> real" where
  "Math_floor x = of_int \<lfloor>x\<rfloor>"

section \<open>Constants and numeric helpers of \<^verbatim>\<open>VideoGenerator.tsx\<close>\<close>

definition WIDTH :: real where "WIDTH = 1080"
definition HEIGHT :: real where "HEIGHT = 1920"
definition DURATION_MS :: real where "DURATION_MS = 15000"

record canvas =
  width :: real
  height :: real

text \<open>The canvas element of the component: \<^verbatim>\<open><canvas width={WIDTH} height={HEIGHT}>\<close>.\<close>

definition theCanvas :: canvas where
  "theCanvas = \<lparr>width = WIDTH, height = HEIGHT\<rparr>"

record palette =
  pal_bg :: string
  pal_primary :: string
  pal_secondary :: string
  pal_text :: string
  pal_muted :: string
  pal_ok :: string

definition thePalette :: palette where
  "thePalette = \<lparr>pal_bg = ''#fff7ed'', pal_primary = ''#f97316'', pal_secondary = ''#fde68a'',
     pal_text = ''#1f2937'', pal_muted = ''#6b7280'', pal_ok = ''#16a34a''\<rparr>"

text \<open>\<^verbatim>\<open>const lerp = (a, b, t) => a + (b - a) * t;\<close>\<close>

definition lerp :: "real \<Rightarrow> real \<Rightarrow> real \<Rightarrow> real" where
  "lerp a b t = fadd a (fmul (fsub b a) t)"

text \<open>\<^verbatim>\<open>const ease = (t) => 1 - Math.pow(1 - t, 3);\<close>\<close>

definition ease :: "math_lib \<Rightarrow> real \<Rightarrow> real" where
  "ease m t = fsub 1 (math_pow m (fsub 1 t) 3)"

text \<open>
  The clock of \<^verbatim>\<open>playAnimation\<close>: \<^verbatim>\<open>end = start + DURATION_MS\<close>, and in each frame
  \<^verbatim>\<open>t = Math.min(1, (now - start) / (end - start))\<close>, \<^verbatim>\<open>ms = now - start\<close>. The divisor
  \<^verbatim>\<open>end - start\<close> is positive for every clock reading of realistic size; the theorems
  about \<open>progress\<close> say where they need it.
\<close>

definition end_time :: "real \<Rightarrow> real" where
  "end_time start = fadd start DURATION_MS"


definition elapsed :: "real \<Rightarrow> real \<Rightarrow> real" where
  "elapsed start now = fsub now start"


section \<open>Canvas commands\<close>

text \<open>
  A frame is the list of calls it makes on the 2D context, in program order. Calls to the
  helpers \<^verbatim>\<open>drawHeader\<close>, \<^verbatim>\<open>drawSub\<close>, \<^verbatim>\<open>roundedTag\<close>, \<^verbatim>\<open>ctaButton\<close> and to the icon
  closures are recorded as one command each, with their arguments.
\<close>

datatype icon = House | Stove | Device | Shield | WhatsApp

datatype cmd =
    ClearRect real real real real
  | GradientFillStyle real real real real "(real \<times> string) list"
  | FillStyle string
  | FillStyleHsl real real real
  | StrokeStyle string
  | LineWidth real
  | LineCap string
  | GlobalAlpha real
  | FillRect real real real real
  | BeginPath
  | RoundRect real real real real real
  | MoveTo real real
  | LineTo real real
  | Fill
  | Stroke
  | Save
  | Restore
  | Translate real real
  | Scale real real
  | DrawHeader string string real real
  | DrawSub string string real real
  | DrawIcon icon real real real real
  | RoundedTag string real real string
  | CtaButton icon real real string

definition drawBackground :: "canvas \<Rightarrow> cmd list" where
  "drawBackground cv =
     [GradientFillStyle 0 0 0 (height cv) [(0, ''#fff1e6''), (1, ''#ffe4d0'')],
      FillRect 0 0 (width cv) (height cv),
      FillStyle ''rgba(0,0,0,0.05)'',
      BeginPath,
      RoundRect 40 40 (fsub (width cv) 80) (fsub (height cv) 80) 40,
      Fill]"

section \<open>Confetti\<close>

text \<open>
  \<^verbatim>\<open>const rng = (seed) => { const s = Math.sin(seed) * 10000; return s - Math.floor(s); }\<close>
\<close>

definition rng :: "math_lib \<Rightarrow> real \<Rightarrow> real" where
  "rng m seed = (let s = fmul (math_sin m seed) 10000 in fsub s (Math_floor s))"

text \<open>\<^verbatim>\<open>const seed = i * 123.456 + now * 0.002;\<close>\<close>

definition confettiSeed :: "nat \<Rightarrow> real \<Rightarrow> real" where
  "confettiSeed i now = fadd (fmul (real i) (fl 123.456)) (fmul now (fl 0.002))"

text \<open>One iteration of the loop body, for particle \<open>i\<close>.\<close>

definition confettiParticle :: "math_lib \<Rightarrow> canvas \<Rightarrow> real \<Rightarrow> nat \<Rightarrow> cmd list" where
  "confettiParticle m cv now i =
     (let seed = confettiSeed i now;
          x = fmul (rng m seed) (width cv);
          y = fadd (fmul (fmul (rng m (fadd seed (fl 1.23))) (height cv)) (fl 0.6))
                (fmul (height cv) (fl 0.2));
          size = fadd 6 (fmul (rng m (fadd seed (fl 2.34))) 14);
          hue = fadd 20 (fmul (rng m (fadd seed (fl 3.45))) 40)
      in [FillStyleHsl hue 90 60, BeginPath, RoundRect x y size (fmul size (fl 0.5)) 3, Fill])"

text \<open>\<^verbatim>\<open>for (let i = 0; i < 80; i++) { ... }\<close>, started at \<open>i\<close>.\<close>

function confettiLoop :: "math_lib \<Rightarrow> canvas \<Rightarrow> real \<Rightarrow> nat \<Rightarrow> cmd list" where
  "confettiLoop m cv now i =
     (if i < 80 then confettiParticle m cv now i @ confettiLoop m cv now (Suc i) else [])"
  by pat_completeness auto
termination
  by (relation "measure (\<lambda>(m, cv, now, i). 80 - i)") auto

declare confettiLoop.simps [simp del]

definition drawConfetti :: "math_lib \<Rightarrow> real \<Rightarrow> canvas \<Rightarrow> cmd list" where
  "drawConfetti m now cv = confettiLoop m cv now 0"

section \<open>The phase renderer\<close>

datatype phase = Intro | Install | Prevent | CTA

text \<open>
  The \<^verbatim>\<open>if (ms < 3000) ... else if (ms < 8000) ... else if (ms < 12000) ... else if
  (ms <= 15000) ...\<close> chain of \<^verbatim>\<open>frame\<close>; there is no final \<^verbatim>\<open>else\<close>, so no phase is
  selected beyond 15000.
\<close>

definition selectPhase :: "real \<Rightarrow> phase option" where
  "selectPhase ms =
     (if ms < 3000 then Some Intro
      else if ms < 8000 then Some Install
      else if ms < 12000 then Some Prevent
      else if ms \<le> 15000 then Some CTA
      else None)"

definition drawIntro :: "math_lib \<Rightarrow> canvas \<Rightarrow> real \<Rightarrow> cmd list" where
  "drawIntro m cv now =
     (let scale = fadd 1 (fmul (math_sin m (fdiv now 400)) (fl 0.03)) in
      [DrawHeader ''Gas Safety Device'' (pal_text thePalette) 84 (fl 0.06),
       DrawSub ''Safe, Reliable, Easy Installation'' (pal_primary thePalette) 44 (fl 0.12),
       Save,
       Translate (fdiv (width cv) 2) (fmul (height cv) (fl 0.42)),
       Scale scale scale,
       DrawIcon House (-200) (-200) 400 400,
       Restore])"

text \<open>
  The horizontal position of the device in the Install branch:
  \<^verbatim>\<open>local = (ms - 3000) / 5000\<close>,
  \<^verbatim>\<open>x = lerp(canvas.width * 0.2, canvas.width * 0.5, ease(Math.min(1, local)))\<close>.
\<close>

definition installLocal :: "real \<Rightarrow> real" where
  "installLocal ms = fdiv (fsub ms 3000) 5000"

definition installX :: "math_lib \<Rightarrow> canvas \<Rightarrow> real \<Rightarrow> real" where
  "installX m cv ms =
     lerp (fmul (width cv) (fl 0.2)) (fmul (width cv) (fl 0.5))
       (ease m (min 1 (installLocal ms)))"

definition drawInstall :: "math_lib \<Rightarrow> canvas \<Rightarrow> real \<Rightarrow> real \<Rightarrow> cmd list" where
  "drawInstall m cv now ms =
     (let local = installLocal ms;
          x = installX m cv ms;
          y = fadd (fmul (height cv) (fl 0.55)) (fmul (math_sin m (fdiv now 250)) 6);
          s = fadd 1 (fmul (fsub 1 local) (fl 0.15))
      in
      [DrawHeader ''Easy Installation'' (pal_text thePalette) 74 (fl 0.06),
       DrawSub ''Fits seamlessly in your kitchen'' (pal_muted thePalette) 38 (fl 0.115),
       Save,
       Translate (fmul (width cv) (fl 0.65)) (fmul (height cv) (fl 0.5)),
       DrawIcon Stove (-220) (-220) 440 440,
       Restore,
       Save,
       Translate x y,
       Scale s s,
       DrawIcon Device (-130) (-130) 260 260,
       StrokeStyle (pal_primary thePalette),
       LineWidth 10,
       BeginPath,
       MoveTo 0 0,
       LineTo (fmul (width cv) (fl 0.15)) 0,
       Stroke,
       Restore])"

definition drawPrevent :: "math_lib \<Rightarrow> canvas \<Rightarrow> real \<Rightarrow> cmd list" where
  "drawPrevent m cv now =
     (let pulse = fadd 1 (fmul (math_sin m (fdiv now 300)) (fl 0.06)) in
      [DrawHeader ''Prevents Gas Leaks'' (pal_text thePalette) 78 (fl 0.06),
       DrawSub ''Protects your family from accidents'' (pal_muted thePalette) 40 (fl 0.115),
       Save,
       GlobalAlpha (fl 0.25),
       DrawIcon Stove (fmul (width cv) (fl 0.1)) (fmul (height cv) (fl 0.3)) 420 420,
       Restore,
       Save,
       Translate (fdiv (width cv) 2) (fmul (height cv) (fl 0.55)),
       Scale pulse pulse,
       DrawIcon Shield (-220) (-220) 440 440,
       StrokeStyle (pal_ok thePalette),
       LineWidth 26,
       LineCap ''round'',
       BeginPath,
       MoveTo (-60) 20,
       LineTo (-10) 70,
       LineTo 90 (-40),
       Stroke,
       Restore,
       RoundedTag ''Safe ? Reliable'' (fdiv (width cv) 2) (fmul (height cv) (fl 0.82))
         (pal_ok thePalette)])"

definition drawCTA :: "math_lib \<Rightarrow> canvas \<Rightarrow> real \<Rightarrow> cmd list" where
  "drawCTA m cv now =
     (let bx = fdiv (width cv) 2;
          by = fmul (height cv) (fl 0.6)
      in
      [DrawHeader ''Order Now'' (pal_text thePalette) 86 (fl 0.06),
       DrawSub ''Cash on Delivery Available'' (pal_primary thePalette) 46 (fl 0.115),
       CtaButton WhatsApp bx by ''Order via WhatsApp'',
       DrawIcon Device (fmul (width cv) (fl 0.6)) (fmul (height cv) (fl 0.28)) 280 280]
      @ drawConfetti m now cv)"

definition drawPhase :: "math_lib \<Rightarrow> canvas \<Rightarrow> real \<Rightarrow> real \<Rightarrow> phase \<Rightarrow> cmd list" where
  "drawPhase m cv now ms p =
     (case p of
        Intro \<Rightarrow> drawIntro m cv now
      | Install \<Rightarrow> drawInstall m cv now ms
      | Prevent \<Rightarrow> drawPrevent m cv now
      | CTA \<Rightarrow> drawCTA m cv now)"

text \<open>
  The drawing part of one \<^verbatim>\<open>frame\<close> call at time \<open>now\<close>: clear, background, then the
  branch selected by \<open>ms\<close>.
\<close>

definition frame :: "math_lib \<Rightarrow> canvas \<Rightarrow> real \<Rightarrow> real \<Rightarrow> cmd list" where
  "frame m cv start now =
     (let ms = elapsed start now in
      ClearRect 0 0 (width cv) (height cv) # drawBackground cv @
      (case selectPhase ms of
         Some p \<Rightarrow> drawPhase m cv now ms p
       | None \<Rightarrow> []))"

section \<open>The Timeline Driver\<close>

text \<open>
  A thrown JavaScript value, as far as \<^verbatim>\<open>start\<close> looks at it: its \<^verbatim>\<open>message\<close>, if any
  (\<^verbatim>\<open>e?.message ?? "Failed to generate video"\<close>).
\<close>

datatype js_error = Thrown "string option"

fun errorMessage :: "js_error \<Rightarrow> string" where
  "errorMessage (Thrown (Some m)) = m"
| "errorMessage (Thrown None) = ''Failed to generate video''"

text \<open>The state of the promise returned by \<^verbatim>\<open>playAnimation\<close> once nothing more happens.\<close>

datatype outcome = Resolved | Rejected js_error | Pending

text \<open>What a run does to the platform, in program order.\<close>

datatype event =
    CaptureStream nat
  | NewMediaRecorder string nat
  | RecStart
  | Frame real "cmd list"
  | FrameThrew real js_error
  | RecStop
  | StopEvent

text \<open>
  The \<^verbatim>\<open>requestAnimationFrame(frame)\<close> loop. Each display refresh supplies the value that
  \<^verbatim>\<open>performance.now()\<close> returns in that callback and, possibly, an exception thrown by a
  canvas call of that frame. The callback draws, then either requests the next frame
  (\<^verbatim>\<open>now < end\<close>) or resolves. An exception inside the callback is thrown into the
  scheduler, not into the promise, which has no reject path: the promise stays pending.
  So does it when the display never refreshes again.
\<close>

fun animationLoop ::
  "math_lib \<Rightarrow> canvas \<Rightarrow> real \<Rightarrow> (real \<times> js_error option) list \<Rightarrow> event list \<times> outcome" where
  "animationLoop m cv start [] = ([], Pending)"
| "animationLoop m cv start ((now, Some e) # rs) = ([FrameThrew now e], Pending)"
| "animationLoop m cv start ((now, None) # rs) =
     (if now < end_time start
      then (let (evs, out) = animationLoop m cv start rs
            in (Frame now (frame m cv start now) # evs, out))
      else ([Frame now (frame m cv start now)], Resolved))"

section \<open>The platform and the component\<close>

record blob =
  blob_bytes :: "8 word list"
  blob_type :: string

definition blob_size :: "blob \<Rightarrow> nat" where
  "blob_size d = length (blob_bytes d)"

text \<open>\<^verbatim>\<open>new Blob(parts, { type })\<close>: the parts' bytes, one after the other.\<close>

definition newBlob :: "blob list \<Rightarrow> string \<Rightarrow> blob" where
  "newBlob parts ty = \<lparr>blob_bytes = concat (map blob_bytes parts), blob_type = ty\<rparr>"

text \<open>
  Everything the browser decides during one run: its \<^verbatim>\<open>Math\<close> functions, which formats
  it supports, which of the
  calls made by \<^verbatim>\<open>start\<close> and \<^verbatim>\<open>playAnimation\<close> throw, the clock, the display
  refreshes, and the fragments the encoder hands to \<^verbatim>\<open>ondataavailable\<close>, in order.
\<close>

record platform =
  Math :: math_lib
  isTypeSupported :: "string \<Rightarrow> bool"
  captureStream_throws :: "js_error option"
  newMediaRecorder_throws :: "string \<Rightarrow> js_error option"
  recStart_throws :: "js_error option"
  playAnimation_throws :: "js_error option"
  clockStart :: real
  refreshes :: "(real \<times> js_error option) list"
  recStop_throws :: "js_error option"
  fragments :: "blob list"

datatype GenerationState = Idle | Recording | Done | Error

record component =
  recState :: GenerationState
  blobUrl :: "blob option"
  error :: "string option"
  mediaRecorderRef :: "string option"
  chunksRef :: "blob list"

definition candidates :: "string list" where
  "candidates =
     [''video/webm;codecs=vp9'',
      ''video/webm;codecs=vp8'',
      ''video/webm'',
      ''video/mp4;codecs=h264'',
      ''video/mp4'']"

text \<open>\<^verbatim>\<open>for (const type of candidates) { if (MediaRecorder.isTypeSupported(type)) return type; }\<close>\<close>

fun firstSupported :: "(string \<Rightarrow> bool) \<Rightarrow> string list \<Rightarrow> string option" where
  "firstSupported supported [] = None"
| "firstSupported supported (t # ts) =
     (if supported t then Some t else firstSupported supported ts)"

definition getSupportedMimeType :: "(string \<Rightarrow> bool) \<Rightarrow> string" where
  "getSupportedMimeType supported =
     (case firstSupported supported candidates of
        Some t \<Rightarrow> t
      | None \<Rightarrow> ''video/webm'')"

text \<open>
  \<^verbatim>\<open>playAnimation\<close>: the part before the promise is built (\<^verbatim>\<open>getContext\<close>, the icon
  factories, the first \<^verbatim>\<open>requestAnimationFrame\<close>) runs inside the async function, so an
  exception there rejects; then the loop.
\<close>

definition playAnimation :: "canvas \<Rightarrow> platform \<Rightarrow> event list \<times> outcome" where
  "playAnimation cv env =
     (case playAnimation_throws env of
        Some e \<Rightarrow> ([], Rejected e)
      | None \<Rightarrow> animationLoop (Math env) cv (clockStart env) (refreshes env))"

text \<open>\<^verbatim>\<open>rec.ondataavailable = (e) => e.data.size && chunksRef.current.push(e.data);\<close>\<close>

definition ondataavailable :: "blob \<Rightarrow> component \<Rightarrow> component" where
  "ondataavailable d st =
     (if blob_size d \<noteq> 0 then st\<lparr>chunksRef := chunksRef st @ [d]\<rparr> else st)"

fun deliver :: "blob list \<Rightarrow> component \<Rightarrow> component" where
  "deliver [] st = st"
| "deliver (d # ds) st = deliver ds (ondataavailable d st)"

text \<open>
  \<^verbatim>\<open>rec.onstop\<close>: the blob of the buffered chunks, typed \<^verbatim>\<open>rec.mimeType\<close>; its object URL
  stands for the blob itself.
\<close>

definition onstop :: "string \<Rightarrow> component \<Rightarrow> component" where
  "onstop mime st = st\<lparr>blobUrl := Some (newBlob (chunksRef st) mime), recState := Done\<rparr>"

text \<open>The \<^verbatim>\<open>catch (e)\<close> block of \<^verbatim>\<open>start\<close>.\<close>

definition catchError :: "js_error \<Rightarrow> component \<Rightarrow> component" where
  "catchError e st = st\<lparr>error := Some (errorMessage e), recState := Error\<rparr>"

text \<open>
  \<^verbatim>\<open>start\<close>, statement by statement; the result is the component's state once nothing more
  happens, with the events of the run. After \<^verbatim>\<open>rec.start()\<close> has succeeded the encoder
  delivers its fragments to the handler; the stop event, and with it \<^verbatim>\<open>onstop\<close>, follows
  only a \<^verbatim>\<open>rec.stop()\<close> that returned.
\<close>

definition start :: "platform \<Rightarrow> component \<Rightarrow> component \<times> event list" where
  "start env st0 =
     (let st1 = st0\<lparr>error := None, blobUrl := None\<rparr> in
      case captureStream_throws env of
        Some e \<Rightarrow> (catchError e st1, [CaptureStream 30])
      | None \<Rightarrow>
     (let mime = getSupportedMimeType (isTypeSupported env);
          created = [CaptureStream 30, NewMediaRecorder mime 6000000] in
      case newMediaRecorder_throws env mime of
        Some e \<Rightarrow> (catchError e st1, created)
      | None \<Rightarrow>
     (let st2 = st1\<lparr>chunksRef := [], mediaRecorderRef := Some mime, recState := Recording\<rparr> in
      case recStart_throws env of
        Some e \<Rightarrow> (catchError e st2, created @ [RecStart])
      | None \<Rightarrow>
     (let (frames, out) = playAnimation theCanvas env;
          played = created @ [RecStart] @ frames in
      case out of
        Pending \<Rightarrow> (deliver (fragments env) st2, played)
      | Rejected e \<Rightarrow> (deliver (fragments env) (catchError e st2), played)
      | Resolved \<Rightarrow>
          (case recStop_throws env of
             Some e \<Rightarrow> (deliver (fragments env) (catchError e st2), played @ [RecStop])
           | None \<Rightarrow> (onstop mime (deliver (fragments env) st2), played @ [RecStop, StopEvent]))))))"


text \<open>The header texts a command list draws, in order.\<close>

fun headersOf :: "cmd list \<Rightarrow> string list" where
  "headersOf [] = []"
| "headersOf (DrawHeader t c s y # cs) = t # headersOf cs"
| "headersOf (c # cs) = headersOf cs"

text \<open>
  A run completes without error when no call made by \<^verbatim>\<open>start\<close> throws and the animation
  promise resolves.
\<close>

definition succeeds :: "platform \<Rightarrow> bool" where
  "succeeds env \<longleftrightarrow>
     captureStream_throws env = None
     \<and> newMediaRecorder_throws env (getSupportedMimeType (isTypeSupported env)) = None
     \<and> recStart_throws env = None
     \<and> snd (playAnimation theCanvas env) = Resolved
     \<and> recStop_throws env = None"

text \<open>
  What the easing needs of the engine's \<^verbatim>\<open>Math.pow\<close>: the cubes of 0 and 1 are exact,
  and cubing is monotone on \<open>[0, 1]\<close>.
\<close>

definition cubes_faithfully :: "math_lib \<Rightarrow> bool" where
  "cubes_faithfully m \<longleftrightarrow>
     math_pow m 0 3 = 0 \<and> math_pow m 1 3 = 1
     \<and> (\<forall>x y. 0 \<le> x \<and> x \<le> y \<and> y \<le> 1 \<longrightarrow> math_pow m x 3 \<le> math_pow m y 3)"


section \<open>Example platforms\<close>

text \<open>
  Concrete browsers for the closed theorems below. \<open>examplePlatform\<close> supports WebM and MP4
  without codec parameters and refuses to construct an encoder of any other type,
  refreshes the display at 1000 ms and at 15010 ms, and delivers three fragments, the
  second of them empty. The others differ from it in one respect each: no format
  supported, an exception while \<^verbatim>\<open>playAnimation\<close> sets up, an exception inside a frame
  callback.
\<close>

text \<open>An engine whose sine and integer powers are correctly rounded.\<close>

definition exampleMath :: math_lib where
  "exampleMath = \<lparr>math_sin = (\<lambda>x. fl (sin x)), math_pow = (\<lambda>x y. fl (x ^ nat \<lfloor>y\<rfloor>))\<rparr>"

definition exampleFragments :: "blob list" where
  "exampleFragments =
     [\<lparr>blob_bytes = [26, 69], blob_type = ''video/webm''\<rparr>,
      \<lparr>blob_bytes = [], blob_type = ''video/webm''\<rparr>,
      \<lparr>blob_bytes = [223], blob_type = ''video/webm''\<rparr>]"

definition examplePlatform :: platform where
  "examplePlatform =
     \<lparr>Math = exampleMath,
      isTypeSupported = (\<lambda>t. t = ''video/webm'' \<or> t = ''video/mp4''),
      captureStream_throws = None,
      newMediaRecorder_throws =
        (\<lambda>t. if t = ''video/webm'' \<or> t = ''video/mp4'' then None
             else Some (Thrown (Some ''NotSupportedError''))),
      recStart_throws = None,
      playAnimation_throws = None,
      clockStart = 0,
      refreshes = [(1000, None), (15010, None)],
      recStop_throws = None,
      fragments = exampleFragments\<rparr>"

definition idleComponent :: component where
  "idleComponent =
     \<lparr>recState = Idle, blobUrl = None, error = None, mediaRecorderRef = None, chunksRef = []\<rparr>"

definition staleComponent :: component where
  "staleComponent =
     \<lparr>recState = Error, blobUrl = None, error = Some ''earlier failure'',
      mediaRecorderRef = Some ''video/webm'',
      chunksRef = [\<lparr>blob_bytes = [7, 7, 7], blob_type = ''video/webm''\<rparr>]\<rparr>"


definition rejectingPlatform :: platform where
  "rejectingPlatform = examplePlatform
     \<lparr>playAnimation_throws := Some (Thrown (Some ''requestAnimationFrame is not defined''))\<rparr>"

definition throwingFramePlatform :: platform where
  "throwingFramePlatform = examplePlatform
     \<lparr>refreshes := [(1000, Some (Thrown (Some ''ctx.roundRect is not a function'')))]\<rparr>"

section \<open>Properties of the rounding\<close>

text \<open>
  What the theorems below use of \<open>fl\<close>: it is odd and monotone, it leaves every number
  \<open>m * 2 ^ e\<close> with \<open>\<bar>m\<bar> < 2 ^ 53\<close> unchanged (in particular the integers below
  \<open>2 ^ 53\<close>), inside a known binade it is computed by \<open>roundEven\<close>, and it errs by at most
  half a unit in the last place.
\<close>

lemma p2_pos: "0 < power_int (2::real) k"
  by (simp add: power_int_def)

lemma p2_powr: "power_int (2::real) k = 2 powr (of_int k)"
  by (simp add: powr_real_of_int')

lemma p2_mono: "k \<le> l \<Longrightarrow> power_int (2::real) k \<le> power_int 2 l"
  by (simp add: p2_powr)

lemma p2_add: "power_int (2::real) (k + l) = power_int 2 k * power_int 2 l"
  by (simp add: power_int_add)

lemma bexp_iff: "x \<noteq> 0 \<Longrightarrow> bexp x = k \<longleftrightarrow> power_int 2 k \<le> \<bar>x\<bar> \<and> \<bar>x\<bar> < power_int 2 (k + 1)"
  unfolding bexp_def p2_powr
  using floor_log_eq_powr_iff [of "\<bar>x\<bar>" 2 k] by simp

lemma bexp_bounds:
  assumes "x \<noteq> 0"
  shows "power_int 2 (bexp x) \<le> \<bar>x\<bar>" "\<bar>x\<bar> < power_int 2 (bexp x + 1)"
  using bexp_iff [OF assms, of "bexp x"] by simp_all

lemma bexp_minus [simp]: "bexp (- x) = bexp x"
  by (simp add: bexp_def)

lemma ulp_minus [simp]: "ulp (- x) = ulp x"
  by (simp add: ulp_def)

lemma ulp_pos: "0 < ulp x"
  by (simp add: ulp_def p2_pos)

lemma bexp_mono: "x \<noteq> 0 \<Longrightarrow> \<bar>x\<bar> \<le> \<bar>y\<bar> \<Longrightarrow> bexp x \<le> bexp y"
  unfolding bexp_def by (intro floor_mono log_mono) simp_all

lemma roundEven_cases: "roundEven y = \<lfloor>y\<rfloor> \<or> roundEven y = \<lfloor>y\<rfloor> + 1"
  by (simp add: roundEven_def Let_def)

lemma roundEven_of_int [simp]: "roundEven (of_int z) = z"
  by (simp add: roundEven_def)

lemma roundEven_mono: "a \<le> b \<Longrightarrow> roundEven a \<le> roundEven b"
proof -
  assume ab: "a \<le> b"
  then have fl: "\<lfloor>a\<rfloor> \<le> \<lfloor>b\<rfloor>" by (rule floor_mono)
  show ?thesis
  proof (cases "\<lfloor>a\<rfloor> = \<lfloor>b\<rfloor>")
    case True
    with ab show ?thesis
      by (auto simp: roundEven_def Let_def)
  next
    case False
    with fl have "\<lfloor>a\<rfloor> + 1 \<le> \<lfloor>b\<rfloor>" by simp
    moreover have "roundEven a \<le> \<lfloor>a\<rfloor> + 1" using roundEven_cases [of a] by auto
    moreover have "\<lfloor>b\<rfloor> \<le> roundEven b" using roundEven_cases [of b] by auto
    ultimately show ?thesis by linarith
  qed
qed

lemma roundEven_minus: "roundEven (- y) = - roundEven y"
proof (cases "y \<in> \<int>")
  case True
  then obtain z where "y = of_int z" by (auto elim: Ints_cases)
  then have "- y = of_int (- z)" by simp
  then show ?thesis unfolding \<open>y = of_int z\<close> by (simp only: roundEven_of_int)
next
  case False
  then have ne: "y \<noteq> of_int \<lfloor>y\<rfloor>"
    by (metis Ints_of_int)
  then have f: "\<lfloor>- y\<rfloor> = - \<lfloor>y\<rfloor> - 1"
    by (simp add: floor_minus ceiling_altdef)
  have r: "0 < y - of_int \<lfloor>y\<rfloor>"
    using ne by (auto simp: less_le)
  show ?thesis
    using r by (auto simp: roundEven_def Let_def f)
qed

lemma fl_0 [simp]: "fl 0 = 0"
  by (simp add: fl_def)

lemma fl_minus: "fl (- x) = - fl x"
  by (simp add: fl_def roundEven_minus)

lemma scaled_bounds:
  assumes "0 < x"
  shows "2 ^ 52 \<le> x / ulp x" "x / ulp x < 2 ^ 53"
proof -
  have x: "x \<noteq> 0" "\<bar>x\<bar> = x" using assms by simp_all
  have u: "power_int 2 (bexp x) = 2 ^ 52 * ulp x"
    using p2_add [of 52 "bexp x - 52"] by (simp add: ulp_def)
  have v: "power_int 2 (bexp x + 1) = 2 ^ 53 * ulp x"
    using p2_add [of 53 "bexp x - 52"] by (simp add: ulp_def add.commute)
  from bexp_bounds(1) [OF x(1)] show "2 ^ 52 \<le> x / ulp x"
    unfolding x(2) u using ulp_pos [of x] by (simp add: pos_le_divide_eq)
  from bexp_bounds(2) [OF x(1)] show "x / ulp x < 2 ^ 53"
    unfolding x(2) v using ulp_pos [of x] by (simp add: pos_divide_less_eq)
qed

lemma fl_binade_bounds:
  assumes "0 < x"
  shows "power_int 2 (bexp x) \<le> fl x" "fl x \<le> power_int 2 (bexp x + 1)"
proof -
  have u: "power_int 2 (bexp x) = 2 ^ 52 * ulp x"
    using p2_add [of 52 "bexp x - 52"] by (simp add: ulp_def)
  have v: "power_int 2 (bexp x + 1) = 2 ^ 53 * ulp x"
    using p2_add [of 53 "bexp x - 52"] by (simp add: ulp_def add.commute)
  have "roundEven (of_int (2 ^ 52)) \<le> roundEven (x / ulp x)"
    by (rule roundEven_mono) (use scaled_bounds(1) [OF assms] in simp)
  then have "(of_int (2 ^ 52) :: real) \<le> of_int (roundEven (x / ulp x))"
    unfolding roundEven_of_int by (simp only: of_int_le_iff)
  then have lo: "(2::real) ^ 52 \<le> of_int (roundEven (x / ulp x))" by simp
  have "roundEven (x / ulp x) \<le> roundEven (of_int (2 ^ 53))"
    by (rule roundEven_mono) (use scaled_bounds(2) [OF assms] in simp)
  then have "of_int (roundEven (x / ulp x)) \<le> (of_int (2 ^ 53) :: real)"
    unfolding roundEven_of_int by (simp only: of_int_le_iff)
  then have hi: "of_int (roundEven (x / ulp x)) \<le> (2::real) ^ 53" by simp
  have f: "fl x = of_int (roundEven (x / ulp x)) * ulp x"
    using assms by (simp add: fl_def)
  show "power_int 2 (bexp x) \<le> fl x"
    unfolding u f using lo ulp_pos [of x] by (simp add: mult_right_mono)
  show "fl x \<le> power_int 2 (bexp x + 1)"
    unfolding v f using hi ulp_pos [of x] by (simp add: mult_right_mono)
qed

lemma fl_pos: "0 < x \<Longrightarrow> 0 < fl x"
proof -
  assume "0 < x"
  from fl_binade_bounds(1) [OF this] p2_pos [of "bexp x"] show ?thesis
    by (rule less_le_trans [rotated])
qed

lemma fl_mono_pos:
  assumes "0 < x" "x \<le> y"
  shows "fl x \<le> fl y"
proof -
  have y: "0 < y" using assms by simp
  have le: "bexp x \<le> bexp y" using assms by (intro bexp_mono) simp_all
  show ?thesis
  proof (cases "bexp x = bexp y")
    case True
    then have u: "ulp x = ulp y" by (simp add: ulp_def)
    have "x / ulp y \<le> y / ulp y"
      using assms(2) ulp_pos [of y] by (simp add: divide_right_mono)
    then have "roundEven (x / ulp y) \<le> roundEven (y / ulp y)" by (rule roundEven_mono)
    then have "(of_int (roundEven (x / ulp y)) :: real) \<le> of_int (roundEven (y / ulp y))" by simp
    then show ?thesis
      using assms(1) y ulp_pos [of y] by (simp add: fl_def u mult_right_mono)
  next
    case False
    with le have "bexp x + 1 \<le> bexp y" by simp
    then have "power_int (2::real) (bexp x + 1) \<le> power_int 2 (bexp y)" by (rule p2_mono)
    with fl_binade_bounds(2) [OF assms(1)] fl_binade_bounds(1) [OF y] show ?thesis by linarith
  qed
qed

lemma fl_mono: "x \<le> y \<Longrightarrow> fl x \<le> fl y"
proof -
  assume xy: "x \<le> y"
  consider "0 < x" | "x = 0" | "x < 0" "y < 0" | "x < 0" "0 \<le> y" by linarith
  then show ?thesis
  proof cases
    case 1
    then show ?thesis using xy by (rule fl_mono_pos)
  next
    case 2
    with xy have "y = 0 \<or> 0 < y" by linarith
    with 2 show ?thesis using fl_pos [of y] by auto
  next
    case 3
    with xy have "fl (- y) \<le> fl (- x)" by (intro fl_mono_pos) simp_all
    then show ?thesis by (simp add: fl_minus)
  next
    case 4
    then have "fl (- x) > 0" by (intro fl_pos) simp
    then have "fl x < 0" by (simp add: fl_minus)
    moreover from 4 have "0 \<le> fl y" using fl_pos [of y] by (cases "y = 0") auto
    ultimately show ?thesis by linarith
  qed
qed

lemma fl_nonneg: "0 \<le> x \<Longrightarrow> 0 \<le> fl x"
  using fl_mono [of 0 x] by simp

text \<open>Evaluation inside a known binade.\<close>

lemma fl_binade:
  assumes "power_int 2 k \<le> \<bar>x\<bar>" "\<bar>x\<bar> < power_int 2 (k + 1)"
  shows "fl x = of_int (roundEven (x / power_int 2 (k - 52))) * power_int 2 (k - 52)"
proof -
  have "0 < \<bar>x\<bar>" using p2_pos [of k] assms(1) by (rule less_le_trans)
  then have x: "x \<noteq> 0" by simp
  then have "bexp x = k" using assms by (simp add: bexp_iff)
  with x show ?thesis by (simp add: fl_def ulp_def)
qed

lemma fl_exact:
  assumes "x = of_int m * power_int 2 e" "\<bar>m\<bar> < 2 ^ 53"
  shows "fl x = x"
proof (cases "x = 0")
  case True
  then show ?thesis by simp
next
  case False
  let ?k = "bexp x"
  have "\<bar>x\<bar> = of_int \<bar>m\<bar> * power_int 2 e"
    unfolding assms(1) using p2_pos [of e] by (simp add: abs_mult)
  also have "\<dots> < 2 ^ 53 * power_int 2 e"
  proof (intro mult_strict_right_mono p2_pos)
    from assms(2) have "of_int \<bar>m\<bar> < (of_int (2 ^ 53) :: real)" by (simp only: of_int_less_iff)
    then show "of_int \<bar>m\<bar> < (2::real) ^ 53" by simp
  qed
  also have "\<dots> = power_int 2 (e + 53)"
    using p2_add [of 53 e] by (simp add: add.commute)
  finally have "\<bar>x\<bar> < power_int 2 (e + 53)" .
  with bexp_bounds(1) [OF False] have "power_int (2::real) ?k < power_int 2 (e + 53)" by linarith
  then have "?k < e + 53" by (simp add: p2_powr)
  then have d: "e = ?k - 52 + int (nat (e - ?k + 52))" by simp
  define d where "d = nat (e - ?k + 52)"
  define u where "u = ulp x"
  have up: "0 < u" by (simp add: u_def ulp_pos)
  have "power_int (2::real) e = power_int 2 (?k - 52 + int d)"
    using d by (simp only: d_def)
  then have pe: "power_int (2::real) e = u * 2 ^ d"
    by (simp only: p2_add power_int_of_nat u_def ulp_def)
  have "x = of_int m * power_int 2 e" by fact
  also have "\<dots> = of_int m * (u * 2 ^ d)" by (simp only: pe)
  finally have "x / u = of_int (m * 2 ^ d)" using up by simp
  then have "roundEven (x / u) = m * 2 ^ d" by (simp only: roundEven_of_int)
  then have "fl x = of_int (m * 2 ^ d) * u" using False by (simp add: fl_def u_def)
  also have "\<dots> = x"
    using \<open>x / u = of_int (m * 2 ^ d)\<close> up by (simp add: field_simps)
  finally show ?thesis .
qed

lemma fl_of_int: "\<bar>m\<bar> < 2 ^ 53 \<Longrightarrow> fl (of_int m) = of_int m"
  using fl_exact [of "of_int m" m 0] by simp

lemma fl_numeral [simp]: "(numeral k :: int) < 2 ^ 53 \<Longrightarrow> fl (numeral k) = numeral k"
  using fl_of_int [of "numeral k"] by simp

lemma fl_neg_numeral [simp]: "(numeral k :: int) < 2 ^ 53 \<Longrightarrow> fl (- numeral k) = - numeral k"
  by (simp add: fl_minus)

lemma fl_1 [simp]: "fl 1 = 1"
  using fl_of_int [of 1] by simp


lemma roundEven_divide:
  assumes "0 < b"
  shows "roundEven (of_int a / of_int b) =
     (let n = a div b; r = a mod b
      in if 2 * r < b then n else if b < 2 * r then n + 1
         else if even n then n else n + 1)"
proof -
  have f: "\<lfloor>(of_int a :: real) / of_int b\<rfloor> = a div b"
    by (simp add: floor_divide_of_int_eq)
  have r: "(of_int a :: real) / of_int b - of_int (a div b) = of_int (a mod b) / of_int b"
    using of_int_div_aux [where ?'a = real, of a b] by simp
  have b: "(0::real) < of_int b" using assms by simp
  have lt: "of_int (a mod b) / (of_int b :: real) < 1 / 2 \<longleftrightarrow> 2 * (a mod b) < b"
  proof -
    have "of_int (a mod b) / (of_int b :: real) < 1 / 2 \<longleftrightarrow>
        (of_int (2 * (a mod b)) :: real) < of_int b"
      using b by (simp add: field_simps)
    then show ?thesis by (simp only: of_int_less_iff)
  qed
  have gt: "1 / 2 < of_int (a mod b) / (of_int b :: real) \<longleftrightarrow> b < 2 * (a mod b)"
  proof -
    have "1 / 2 < of_int (a mod b) / (of_int b :: real) \<longleftrightarrow>
        (of_int b :: real) < of_int (2 * (a mod b))"
      using b by (simp add: field_simps)
    then show ?thesis by (simp only: of_int_less_iff)
  qed
  show ?thesis
    unfolding roundEven_def Let_def f r lt gt ..
qed

lemma roundEven_numeral_div:
  "roundEven (numeral a / numeral b) =
     (let n = (numeral a :: int) div numeral b; r = (numeral a :: int) mod numeral b
      in if 2 * r < numeral b then n else if numeral b < 2 * r then n + 1
         else if even n then n else n + 1)"
  using roundEven_divide [of "numeral b" "numeral a"] by simp

lemma fl_half [simp]: "fl (1 / 2) = 1 / 2"
  by (rule fl_exact [where m = 1 and e = "-1"]) simp_all





section \<open>Phase selection\<close>

lemma selectPhase_cases:
  "selectPhase ms = Some Intro \<longleftrightarrow> ms < 3000"
  "selectPhase ms = Some Install \<longleftrightarrow> 3000 \<le> ms \<and> ms < 8000"
  "selectPhase ms = Some Prevent \<longleftrightarrow> 8000 \<le> ms \<and> ms < 12000"
  "selectPhase ms = Some CTA \<longleftrightarrow> 12000 \<le> ms \<and> ms \<le> 15000"
  "selectPhase ms = None \<longleftrightarrow> 15000 < ms"
  by (auto simp: selectPhase_def)

lemma confettiLoop_unfold:
  "i \<le> 80 \<Longrightarrow> confettiLoop m cv now i = concat (map (confettiParticle m cv now) [i..<80])"
proof (induction m cv now i rule: confettiLoop.induct)
  case (1 m cv now i)
  show ?case
  proof (cases "i < 80")
    case True
    then have "confettiLoop m cv now (Suc i) = concat (map (confettiParticle m cv now) [Suc i..<80])"
      using "1.IH" by simp
    with True show ?thesis
      by (subst confettiLoop.simps) (simp add: upt_conv_Cons)
  next
    case False
    with "1.prems" show ?thesis by (subst confettiLoop.simps) simp
  qed
qed

lemma drawConfetti_unfold:
  "drawConfetti m now cv = concat (map (confettiParticle m cv now) [0..<80])"
  unfolding drawConfetti_def by (rule confettiLoop_unfold) simp

lemma headersOf_append: "headersOf (xs @ ys) = headersOf xs @ headersOf ys"
  by (induction xs rule: headersOf.induct) simp_all

lemma headersOf_particles: "headersOf (concat (map (confettiParticle m cv now) is)) = []"
  by (induction "is") (simp_all add: headersOf_append confettiParticle_def Let_def)

lemma headersOf_drawConfetti: "headersOf (drawConfetti m now cv) = []"
  by (simp only: drawConfetti_unfold headersOf_particles)

lemma headersOf_scenes:
  "headersOf (drawBackground cv) = []"
  "headersOf (drawIntro m cv now) = [''Gas Safety Device'']"
  "headersOf (drawInstall m cv now ms) = [''Easy Installation'']"
  "headersOf (drawPrevent m cv now) = [''Prevents Gas Leaks'']"
  "headersOf (drawCTA m cv now) = [''Order Now'']"
  by (simp_all add: drawBackground_def drawIntro_def drawInstall_def drawPrevent_def drawCTA_def
      Let_def headersOf_append headersOf_drawConfetti)

lemma frame_phase:
  "selectPhase (elapsed t0 now) = Some p \<Longrightarrow>
     frame m cv t0 now =
       ClearRect 0 0 (width cv) (height cv) # drawBackground cv @ drawPhase m cv now (elapsed t0 now) p"
  by (simp add: frame_def)

lemma frame_headers:
  "headersOf (frame m cv t0 now) =
     (case selectPhase (elapsed t0 now) of
        None \<Rightarrow> []
      | Some Intro \<Rightarrow> [''Gas Safety Device'']
      | Some Install \<Rightarrow> [''Easy Installation'']
      | Some Prevent \<Rightarrow> [''Prevents Gas Leaks'']
      | Some CTA \<Rightarrow> [''Order Now''])"
  by (simp add: frame_def drawPhase_def headersOf_append headersOf_scenes
      split: option.splits phase.splits)

lemma elapsed_numeral:
  "(numeral k :: int) < 2 ^ 53 \<Longrightarrow> elapsed 0 (numeral k) = numeral k"
  by (simp add: elapsed_def fsub_def)

text \<open>
  C1. Let \<open>ms\<close> be the elapsed time of a frame as the code computes it, \<open>0 \<le> ms \<le> 15000\<close>.
  Exactly one phase is selected, and the frame drawn is the background followed by that
  phase's scene, with that phase's header and no other: Intro on \<open>[0, 3000)\<close>, Install on
  \<open>[3000, 8000)\<close>, Prevent on \<open>[8000, 12000)\<close>, CTA on \<open>[12000, 15000]\<close>. At 2999 the
  frame is an Intro frame, at 3000 an Install frame, at 8000 a Prevent frame, at 12000
  and at 15000 a CTA frame.
\<close>

theorem phase_selection_total:
  assumes "ms = elapsed t0 now" and "0 \<le> ms" and "ms \<le> 15000"
  shows "(\<exists>!p. selectPhase ms = Some p)
       \<and> (ms < 3000 \<longrightarrow>
            selectPhase ms = Some Intro
            \<and> frame m cv t0 now =
                ClearRect 0 0 (width cv) (height cv) # drawBackground cv @ drawIntro m cv now
            \<and> headersOf (frame m cv t0 now) = [''Gas Safety Device''])
       \<and> (3000 \<le> ms \<and> ms < 8000 \<longrightarrow>
            selectPhase ms = Some Install
            \<and> frame m cv t0 now =
                ClearRect 0 0 (width cv) (height cv) # drawBackground cv @ drawInstall m cv now ms
            \<and> headersOf (frame m cv t0 now) = [''Easy Installation''])
       \<and> (8000 \<le> ms \<and> ms < 12000 \<longrightarrow>
            selectPhase ms = Some Prevent
            \<and> frame m cv t0 now =
                ClearRect 0 0 (width cv) (height cv) # drawBackground cv @ drawPrevent m cv now
            \<and> headersOf (frame m cv t0 now) = [''Prevents Gas Leaks''])
       \<and> (12000 \<le> ms \<longrightarrow>
            selectPhase ms = Some CTA
            \<and> frame m cv t0 now =
                ClearRect 0 0 (width cv) (height cv) # drawBackground cv @ drawCTA m cv now
            \<and> headersOf (frame m cv t0 now) = [''Order Now''])
       \<and> headersOf (frame m theCanvas 0 2999) = [''Gas Safety Device'']
       \<and> headersOf (frame m theCanvas 0 3000) = [''Easy Installation'']
       \<and> headersOf (frame m theCanvas 0 8000) = [''Prevents Gas Leaks'']
       \<and> headersOf (frame m theCanvas 0 12000) = [''Order Now'']
       \<and> headersOf (frame m theCanvas 0 15000) = [''Order Now'']"
proof -
  have "\<exists>p. selectPhase ms = Some p"
    using assms(2,3) by (simp add: selectPhase_def)
  then have one: "\<exists>!p. selectPhase ms = Some p" by auto
  have intro: "ms < 3000 \<longrightarrow>
            selectPhase ms = Some Intro
            \<and> frame m cv t0 now =
                ClearRect 0 0 (width cv) (height cv) # drawBackground cv @ drawIntro m cv now
            \<and> headersOf (frame m cv t0 now) = [''Gas Safety Device'']"
    unfolding assms(1)
    by (simp add: selectPhase_cases frame_phase [where p = Intro] drawPhase_def
        headersOf_append headersOf_scenes)
  have install: "3000 \<le> ms \<and> ms < 8000 \<longrightarrow>
            selectPhase ms = Some Install
            \<and> frame m cv t0 now =
                ClearRect 0 0 (width cv) (height cv) # drawBackground cv @ drawInstall m cv now ms
            \<and> headersOf (frame m cv t0 now) = [''Easy Installation'']"
    unfolding assms(1)
    by (simp add: selectPhase_cases frame_phase [where p = Install] drawPhase_def
        headersOf_append headersOf_scenes)
  have prevent: "8000 \<le> ms \<and> ms < 12000 \<longrightarrow>
            selectPhase ms = Some Prevent
            \<and> frame m cv t0 now =
                ClearRect 0 0 (width cv) (height cv) # drawBackground cv @ drawPrevent m cv now
            \<and> headersOf (frame m cv t0 now) = [''Prevents Gas Leaks'']"
    unfolding assms(1)
    by (simp add: selectPhase_cases frame_phase [where p = Prevent] drawPhase_def
        headersOf_append headersOf_scenes)
  have cta: "12000 \<le> ms \<longrightarrow>
            selectPhase ms = Some CTA
            \<and> frame m cv t0 now =
                ClearRect 0 0 (width cv) (height cv) # drawBackground cv @ drawCTA m cv now
            \<and> headersOf (frame m cv t0 now) = [''Order Now'']"
    using assms(3) unfolding assms(1)
    by (simp add: selectPhase_cases frame_phase [where p = CTA] drawPhase_def
        headersOf_append headersOf_scenes)
  have b: "headersOf (frame m theCanvas 0 2999) = [''Gas Safety Device'']"
    "headersOf (frame m theCanvas 0 3000) = [''Easy Installation'']"
    "headersOf (frame m theCanvas 0 8000) = [''Prevents Gas Leaks'']"
    "headersOf (frame m theCanvas 0 12000) = [''Order Now'']"
    "headersOf (frame m theCanvas 0 15000) = [''Order Now'']"
    by (simp_all add: frame_headers elapsed_numeral selectPhase_def)
  from one intro install prevent cta b show ?thesis by blast
qed

theorem phase_selection_total_witness:
  "elapsed 100 3100 = 3000
   \<and> selectPhase 3000 = Some Install
   \<and> frame exampleMath theCanvas 100 3100 =
       ClearRect 0 0 (width theCanvas) (height theCanvas)
         # drawBackground theCanvas @ drawInstall exampleMath theCanvas 3100 3000
   \<and> headersOf (frame exampleMath theCanvas 100 3100) = [''Easy Installation'']"
proof -
  have e: "elapsed 100 3100 = 3000" by (simp add: elapsed_def fsub_def)
  have a: "(0::real) \<le> 3000" "(3000::real) \<le> 15000" "(3000::real) \<le> 3000 \<and> (3000::real) < 8000"
    by simp_all
  from phase_selection_total [OF e [symmetric] a(1,2), where m = exampleMath and cv = theCanvas]
    a(3) e show ?thesis
    by blast
qed

section \<open>The driver's last frame\<close>

lemma frame_beyond_end:
  "15000 < elapsed t0 now \<Longrightarrow>
     frame m cv t0 now = ClearRect 0 0 (width cv) (height cv) # drawBackground cv"
  by (simp add: frame_def selectPhase_def)








section \<open>Progress\<close>















section \<open>Easing and the Install animation\<close>

lemma ease_0: "cubes_faithfully m \<Longrightarrow> ease m 0 = 0"
  by (simp add: ease_def fsub_def cubes_faithfully_def)

lemma ease_1: "cubes_faithfully m \<Longrightarrow> ease m 1 = 1"
  by (simp add: ease_def fsub_def cubes_faithfully_def)

lemma ease_mono:
  assumes "cubes_faithfully m" "0 \<le> s" "s \<le> t" "t \<le> 1"
  shows "ease m s \<le> ease m t"
proof -
  have a: "fsub 1 t \<le> fsub 1 s" using assms(3) by (simp add: fsub_def fl_mono)
  have b: "0 \<le> fsub 1 t" using assms(4) by (simp add: fsub_def fl_nonneg)
  have "fl (1 - s) \<le> fl 1" using assms(2) by (intro fl_mono) simp
  then have c: "fsub 1 s \<le> 1" by (simp add: fsub_def)
  from assms(1) a b c have "math_pow m (fsub 1 t) 3 \<le> math_pow m (fsub 1 s) 3"
    unfolding cubes_faithfully_def by blast
  then show ?thesis by (simp add: ease_def fsub_def fl_mono)
qed

lemma example_cubes: "cubes_faithfully exampleMath"
  by (simp add: cubes_faithfully_def exampleMath_def fl_mono power_mono)

lemma fl_fifth: "fl (1 / 5) = 3602879701896397 / 18014398509481984"
  by (subst fl_binade [where k = "-3"]) (simp_all add: roundEven_numeral_div Let_def)

lemma canvas_fifth: "fmul (width theCanvas) (fl 0.2) = 216"
  unfolding fmul_def theCanvas_def WIDTH_def
  by (simp add: fl_fifth) (subst fl_binade [where k = 7], simp_all add: roundEven_numeral_div Let_def)

lemma canvas_half: "fmul (width theCanvas) (fl 0.5) = 540"
  by (simp add: fmul_def theCanvas_def WIDTH_def)

lemma installLocal_8000: "installLocal 8000 = 1"
  by (simp add: installLocal_def fdiv_def fsub_def)

lemma lerp_canvas: "lerp 216 540 1 = 540"
  by (simp add: lerp_def fadd_def fmul_def fsub_def)

lemma no_icon_in_particles:
  "DrawIcon k x y w h \<notin> set (concat (map (confettiParticle m cv now) is))"
  by (induction "is") (simp_all add: confettiParticle_def Let_def)

lemma no_icon_in_confetti: "DrawIcon k x y w h \<notin> set (drawConfetti m now cv)"
  by (simp only: drawConfetti_unfold no_icon_in_particles not_False_eq_True)

lemma install_device_iff:
  "DrawIcon Device (-130) (-130) 260 260 \<in> set (frame m cv t0 now)
     \<longleftrightarrow> 3000 \<le> elapsed t0 now \<and> elapsed t0 now < 8000"
proof (cases "selectPhase (elapsed t0 now)")
  case None
  then have late: "15000 < elapsed t0 now" by (simp add: selectPhase_cases)
  then show ?thesis
    by (simp add: frame_beyond_end drawBackground_def)
next
  case (Some p)
  note fr = frame_phase [OF Some, where m = m and cv = cv]
  show ?thesis
  proof (cases p)
    case Intro
    with Some have "elapsed t0 now < 3000" by (simp add: selectPhase_cases)
    then show ?thesis
      unfolding fr Intro by (simp add: drawBackground_def drawPhase_def drawIntro_def Let_def)
  next
    case Install
    with Some have "3000 \<le> elapsed t0 now \<and> elapsed t0 now < 8000"
      by (simp add: selectPhase_cases)
    then show ?thesis
      unfolding fr Install by (simp add: drawBackground_def drawPhase_def drawInstall_def Let_def)
  next
    case Prevent
    with Some have "8000 \<le> elapsed t0 now" by (simp add: selectPhase_cases)
    then show ?thesis
      unfolding fr Prevent by (simp add: drawBackground_def drawPhase_def drawPrevent_def Let_def)
  next
    case CTA
    with Some have "12000 \<le> elapsed t0 now" by (simp add: selectPhase_cases)
    then show ?thesis
      unfolding fr CTA
      by (simp add: drawBackground_def drawPhase_def drawCTA_def Let_def no_icon_in_confetti)
  qed
qed

lemma install_translate:
  "3000 \<le> elapsed t0 now \<Longrightarrow> elapsed t0 now < 8000 \<Longrightarrow>
     Translate (installX m cv (elapsed t0 now))
       (fadd (fmul (height cv) (fl 0.55)) (fmul (math_sin m (fdiv now 250)) 6))
       \<in> set (frame m cv t0 now)"
  by (simp add: frame_def selectPhase_def drawPhase_def drawInstall_def Let_def)

text \<open>
  C8, as amended. For an engine whose \<^verbatim>\<open>Math.pow\<close> gives the cubes of 0 and 1 exactly
  and is monotone on \<open>[0, 1]\<close> at exponent 3: \<open>ease 0 = 0\<close>, \<open>ease 1 = 1\<close>, \<open>ease\<close> is
  non-decreasing on \<open>[0, 1]\<close>, and \<open>lerp (0.2 W) (0.5 W) (ease 1) = 0.5 W\<close> on the 1080
  pixels wide canvas. For every engine, the position formula of the Install branch
  evaluated at 8000 is \<open>lerp (0.2 W) (0.5 W) (ease 1)\<close> and \<open>0.5 W\<close> is 540, but the moving
  device is drawn exactly in the frames with \<open>3000 \<le> elapsedMs < 8000\<close>, at that
  formula's value for their elapsed time; a frame at 8000 does not draw it.
\<close>

theorem install_position_formula:
  "(cubes_faithfully m \<longrightarrow>
      ease m 0 = 0 \<and> ease m 1 = 1
      \<and> (0 \<le> s \<and> s \<le> t \<and> t \<le> 1 \<longrightarrow> ease m s \<le> ease m t)
      \<and> lerp (fmul (width theCanvas) (fl 0.2)) (fmul (width theCanvas) (fl 0.5)) (ease m 1) =
          fmul (width theCanvas) (fl 0.5))
   \<and> installX m theCanvas 8000 =
       lerp (fmul (width theCanvas) (fl 0.2)) (fmul (width theCanvas) (fl 0.5)) (ease m 1)
   \<and> fmul (width theCanvas) (fl 0.5) = 540
   \<and> (DrawIcon Device (-130) (-130) 260 260 \<in> set (frame m cv t0 now)
        \<longleftrightarrow> 3000 \<le> elapsed t0 now \<and> elapsed t0 now < 8000)
   \<and> (3000 \<le> elapsed t0 now \<and> elapsed t0 now < 8000 \<longrightarrow>
        Translate (installX m cv (elapsed t0 now))
          (fadd (fmul (height cv) (fl 0.55)) (fmul (math_sin m (fdiv now 250)) 6))
          \<in> set (frame m cv t0 now))"
proof -
  have e: "cubes_faithfully m \<longrightarrow>
      ease m 0 = 0 \<and> ease m 1 = 1
      \<and> (0 \<le> s \<and> s \<le> t \<and> t \<le> 1 \<longrightarrow> ease m s \<le> ease m t)
      \<and> lerp (fmul (width theCanvas) (fl 0.2)) (fmul (width theCanvas) (fl 0.5)) (ease m 1) =
          fmul (width theCanvas) (fl 0.5)"
  proof
    assume c: "cubes_faithfully m"
    have l: "lerp (fmul (width theCanvas) (fl 0.2)) (fmul (width theCanvas) (fl 0.5)) (ease m 1) =
          fmul (width theCanvas) (fl 0.5)"
      by (simp only: canvas_fifth canvas_half ease_1 [OF c] lerp_canvas)
    from ease_0 [OF c] ease_1 [OF c] ease_mono [OF c, of s t] l
    show "ease m 0 = 0 \<and> ease m 1 = 1
      \<and> (0 \<le> s \<and> s \<le> t \<and> t \<le> 1 \<longrightarrow> ease m s \<le> ease m t)
      \<and> lerp (fmul (width theCanvas) (fl 0.2)) (fmul (width theCanvas) (fl 0.5)) (ease m 1) =
          fmul (width theCanvas) (fl 0.5)"
      by blast
  qed
  have x: "installX m theCanvas 8000 =
       lerp (fmul (width theCanvas) (fl 0.2)) (fmul (width theCanvas) (fl 0.5)) (ease m 1)"
    by (simp only: installX_def installLocal_8000 min.idem)
  have i: "3000 \<le> elapsed t0 now \<and> elapsed t0 now < 8000 \<longrightarrow>
        Translate (installX m cv (elapsed t0 now))
          (fadd (fmul (height cv) (fl 0.55)) (fmul (math_sin m (fdiv now 250)) 6))
          \<in> set (frame m cv t0 now)"
    using install_translate [where m = m and cv = cv and ?t0.0 = t0 and now = now] by blast
  from e x canvas_half install_device_iff [where m = m and cv = cv and ?t0.0 = t0 and now = now] i
  show ?thesis by blast
qed

theorem install_position_formula_witness:
  "cubes_faithfully exampleMath
   \<and> (0::real) \<le> 1 / 4 \<and> (1 / 4 :: real) \<le> 1 / 2 \<and> (1 / 2 :: real) \<le> 1
   \<and> ease exampleMath (1 / 4) \<le> ease exampleMath (1 / 2)
   \<and> elapsed 0 5500 = 5500
   \<and> DrawIcon Device (-130) (-130) 260 260 \<in> set (frame exampleMath theCanvas 0 5500)
   \<and> Translate (installX exampleMath theCanvas 5500)
        (fadd (fmul (height theCanvas) (fl 0.55)) (fmul (math_sin exampleMath (fdiv 5500 250)) 6))
        \<in> set (frame exampleMath theCanvas 0 5500)
   \<and> installX exampleMath theCanvas 8000 = 540"
proof -
  have e: "elapsed 0 5500 = 5500" by (simp add: elapsed_def fsub_def)
  have a: "(0::real) \<le> 1 / 4 \<and> (1 / 4 :: real) \<le> 1 / 2 \<and> (1 / 2 :: real) \<le> 1" by simp
  have b: "(3000::real) \<le> 5500 \<and> (5500::real) < 8000" by simp
  note c = example_cubes
  note t = install_position_formula [where m = exampleMath and s = "1 / 4" and t = "1 / 2"
      and cv = theCanvas and ?t0.0 = 0 and now = 5500]
  from t a c have m: "ease exampleMath (1 / 4) \<le> ease exampleMath (1 / 2)" by blast
  from t b have d: "DrawIcon Device (-130) (-130) 260 260 \<in> set (frame exampleMath theCanvas 0 5500)"
    unfolding e by blast
  from t b have r: "Translate (installX exampleMath theCanvas 5500)
        (fadd (fmul (height theCanvas) (fl 0.55)) (fmul (math_sin exampleMath (fdiv 5500 250)) 6))
        \<in> set (frame exampleMath theCanvas 0 5500)"
    unfolding e by blast
  from t c have "installX exampleMath theCanvas 8000 =
       lerp (fmul (width theCanvas) (fl 0.2)) (fmul (width theCanvas) (fl 0.5))
         (ease exampleMath 1)"
    and "lerp (fmul (width theCanvas) (fl 0.2)) (fmul (width theCanvas) (fl 0.5))
         (ease exampleMath 1) = fmul (width theCanvas) (fl 0.5)"
    and "fmul (width theCanvas) (fl 0.5) = 540"
    by blast+
  then have x: "installX exampleMath theCanvas 8000 = 540" by (simp only:)
  from c a m e d r x show ?thesis by blast
qed

text \<open>
  C8 as stated fails at 8000: that frame is the Prevent scene and draws no moving device.
\<close>

theorem install_boundary_counterexample:
  "selectPhase (elapsed 0 8000) = Some Prevent
   \<and> frame exampleMath theCanvas 0 8000 =
       ClearRect 0 0 1080 1920 # drawBackground theCanvas @ drawPrevent exampleMath theCanvas 8000
   \<and> DrawIcon Device (-130) (-130) 260 260 \<notin> set (frame exampleMath theCanvas 0 8000)"
  by (simp add: frame_def elapsed_def fsub_def selectPhase_def drawPhase_def drawPrevent_def
      drawBackground_def theCanvas_def WIDTH_def HEIGHT_def Let_def)

section \<open>Confetti layout\<close>





section \<open>The capture run\<close>

lemma deliver_fields:
  "recState (deliver ds st) = recState st"
  "blobUrl (deliver ds st) = blobUrl st"
  "error (deliver ds st) = error st"
  "mediaRecorderRef (deliver ds st) = mediaRecorderRef st"
  by (induction ds arbitrary: st) (simp_all add: ondataavailable_def)

lemma deliver_chunks:
  "chunksRef (deliver ds st) = chunksRef st @ filter (\<lambda>d. blob_size d \<noteq> 0) ds"
  by (induction ds arbitrary: st) (simp_all add: ondataavailable_def)

lemma concat_nonempty:
  "concat (map blob_bytes (filter (\<lambda>d. blob_size d \<noteq> 0) ds)) = concat (map blob_bytes ds)"
  "concat (map blob_bytes (filter (\<lambda>d. 0 < blob_size d) ds)) = concat (map blob_bytes ds)"
  by (induction ds) (simp_all add: blob_size_def)

lemma animationLoop_resolved_frames:
  "snd (animationLoop m cv t0 rs) = Resolved \<Longrightarrow> ev \<in> set (fst (animationLoop m cv t0 rs)) \<Longrightarrow>
     \<exists>now. ev = Frame now (frame m cv t0 now)"
  by (induction m cv t0 rs rule: animationLoop.induct) (auto split: if_splits prod.splits)

lemma animationLoop_resolved_nonempty:
  "snd (animationLoop m cv t0 rs) = Resolved \<Longrightarrow> fst (animationLoop m cv t0 rs) \<noteq> []"
  by (induction m cv t0 rs rule: animationLoop.induct) (auto split: if_splits prod.splits)

lemma start_Done_iff: "recState (fst (start env st)) = Done \<longleftrightarrow> succeeds env"
  by (auto simp: succeeds_def start_def Let_def catchError_def onstop_def deliver_fields
      split: option.splits prod.splits outcome.splits)

lemma start_blobUrl_iff: "blobUrl (fst (start env st)) \<noteq> None \<longleftrightarrow> succeeds env"
  by (auto simp: succeeds_def start_def Let_def catchError_def onstop_def deliver_fields
      split: option.splits prod.splits outcome.splits)

lemma start_success:
  assumes "succeeds env"
  shows "start env st =
     (onstop (getSupportedMimeType (isTypeSupported env))
        (deliver (fragments env)
           (st\<lparr>error := None, blobUrl := None, chunksRef := [],
              mediaRecorderRef := Some (getSupportedMimeType (isTypeSupported env)),
              recState := Recording\<rparr>)),
      [CaptureStream 30, NewMediaRecorder (getSupportedMimeType (isTypeSupported env)) 6000000,
       RecStart] @ fst (playAnimation theCanvas env) @ [RecStop, StopEvent])"
  using assms
  by (auto simp: succeeds_def start_def Let_def split: option.splits prod.splits outcome.splits)

lemma example_mime: "getSupportedMimeType (isTypeSupported examplePlatform) = ''video/webm''"
  by (simp add: getSupportedMimeType_def candidates_def examplePlatform_def)

lemma example_succeeds: "succeeds examplePlatform"
  unfolding succeeds_def example_mime
  by (simp add: examplePlatform_def playAnimation_def end_time_def fadd_def DURATION_MS_def)

subsection \<open>Order of encoder and animation\<close>

text \<open>
  C6. In every run that ends in state \<open>Done\<close>, the events are: the stream, the encoder's
  construction, \<^verbatim>\<open>rec.start()\<close>, then the frames of the animation (at least one, none
  of them failing), then \<^verbatim>\<open>rec.stop()\<close> and the stop event. So the encoder is started
  before the first tick, stopped after the promise has resolved with the last tick, and
  started and stopped exactly once.
\<close>

theorem encoder_brackets_animation:
  assumes "recState (fst (start env st)) = Done"
  shows "snd (start env st) =
           [CaptureStream 30, NewMediaRecorder (getSupportedMimeType (isTypeSupported env)) 6000000,
            RecStart] @ fst (playAnimation theCanvas env) @ [RecStop, StopEvent]
       \<and> snd (playAnimation theCanvas env) = Resolved
       \<and> fst (playAnimation theCanvas env) \<noteq> []
       \<and> (\<forall>ev \<in> set (fst (playAnimation theCanvas env)).
             \<exists>now. ev = Frame now (frame (Math env) theCanvas (clockStart env) now))
       \<and> count_list (snd (start env st)) RecStart = 1
       \<and> count_list (snd (start env st)) RecStop = 1"
proof -
  let ?frames = "fst (playAnimation theCanvas env)"
  from assms have ok: "succeeds env" by (simp add: start_Done_iff)
  then have res: "snd (playAnimation theCanvas env) = Resolved"
    by (simp add: succeeds_def)
  then have loop: "playAnimation theCanvas env =
      animationLoop (Math env) theCanvas (clockStart env) (refreshes env)"
    by (auto simp: playAnimation_def split: option.splits)
  have tr: "snd (start env st) =
           [CaptureStream 30, NewMediaRecorder (getSupportedMimeType (isTypeSupported env)) 6000000,
            RecStart] @ ?frames @ [RecStop, StopEvent]"
    by (simp add: start_success [OF ok])
  have ne: "?frames \<noteq> []"
    using res unfolding loop by (rule animationLoop_resolved_nonempty)
  have fr: "\<forall>ev \<in> set ?frames. \<exists>now. ev = Frame now (frame (Math env) theCanvas (clockStart env) now)"
    using res animationLoop_resolved_frames unfolding loop by blast
  then have "RecStart \<notin> set ?frames" "RecStop \<notin> set ?frames" by auto
  then have z: "count_list ?frames RecStart = 0" "count_list ?frames RecStop = 0"
    by (simp_all add: count_list_0_iff)
  have c1: "count_list (snd (start env st)) RecStart = 1"
    unfolding tr by (simp add: z)
  have c2: "count_list (snd (start env st)) RecStop = 1"
    unfolding tr by (simp add: z)
  from tr res ne fr c1 c2 show ?thesis by blast
qed

theorem encoder_brackets_animation_witness:
  "recState (fst (start examplePlatform idleComponent)) = Done
   \<and> snd (start examplePlatform idleComponent) =
       [CaptureStream 30, NewMediaRecorder ''video/webm'' 6000000, RecStart,
        Frame 1000 (frame exampleMath theCanvas 0 1000), Frame 15010 (frame exampleMath theCanvas 0 15010),
        RecStop, StopEvent]
   \<and> count_list (snd (start examplePlatform idleComponent)) RecStop = 1"
proof -
  have d: "recState (fst (start examplePlatform idleComponent)) = Done"
    by (simp add: start_Done_iff example_succeeds)
  have m: "getSupportedMimeType (isTypeSupported examplePlatform) = ''video/webm''"
    by (simp add: getSupportedMimeType_def candidates_def examplePlatform_def)
  have f: "fst (playAnimation theCanvas examplePlatform) =
      [Frame 1000 (frame exampleMath theCanvas 0 1000), Frame 15010 (frame exampleMath theCanvas 0 15010)]"
    by (simp add: examplePlatform_def playAnimation_def end_time_def fadd_def DURATION_MS_def)
  show ?thesis
    using encoder_brackets_animation [OF d] d by (simp add: m f)
qed

subsection \<open>The artifact\<close>

text \<open>
  C7. The handler appends a fragment to the buffer exactly when its size is not zero. In a
  run that ends in state \<open>Done\<close> the buffer holds the non-empty fragments in arrival order,
  the artifact is the blob of the buffer, and its bytes are the fragments' bytes
  concatenated in arrival order: \<open>c1 @ c2 @ c3\<close> for fragments \<open>[c1, c2, c3]\<close>.
\<close>

theorem artifact_is_concatenation:
  assumes "recState (fst (start env st)) = Done"
  shows "chunksRef (fst (start env st)) = filter (\<lambda>d. blob_size d \<noteq> 0) (fragments env)
       \<and> blobUrl (fst (start env st)) =
           Some (newBlob (chunksRef (fst (start env st)))
                   (getSupportedMimeType (isTypeSupported env)))
       \<and> map_option blob_bytes (blobUrl (fst (start env st))) =
           Some (concat (map blob_bytes (fragments env)))
       \<and> (fragments env = [c1, c2, c3] \<longrightarrow>
            map_option blob_bytes (blobUrl (fst (start env st))) =
              Some (blob_bytes c1 @ blob_bytes c2 @ blob_bytes c3))
       \<and> chunksRef (ondataavailable d s) =
           (if blob_size d = 0 then chunksRef s else chunksRef s @ [d])"
proof -
  from assms have ok: "succeeds env" by (simp add: start_Done_iff)
  have a: "chunksRef (fst (start env st)) = filter (\<lambda>d. blob_size d \<noteq> 0) (fragments env)"
    by (simp add: start_success [OF ok] onstop_def deliver_chunks)
  have b: "blobUrl (fst (start env st)) =
           Some (newBlob (chunksRef (fst (start env st)))
                   (getSupportedMimeType (isTypeSupported env)))"
    by (simp add: start_success [OF ok] onstop_def)
  have c: "map_option blob_bytes (blobUrl (fst (start env st))) =
           Some (concat (map blob_bytes (fragments env)))"
    unfolding b a by (simp add: newBlob_def concat_nonempty)
  have d: "fragments env = [c1, c2, c3] \<longrightarrow>
            map_option blob_bytes (blobUrl (fst (start env st))) =
              Some (blob_bytes c1 @ blob_bytes c2 @ blob_bytes c3)"
    unfolding c by simp
  have e: "chunksRef (ondataavailable d s) =
           (if blob_size d = 0 then chunksRef s else chunksRef s @ [d])"
    by (simp add: ondataavailable_def)
  from a b c d e show ?thesis by blast
qed

theorem artifact_is_concatenation_witness:
  "recState (fst (start examplePlatform idleComponent)) = Done
   \<and> fragments examplePlatform =
       [\<lparr>blob_bytes = [26, 69], blob_type = ''video/webm''\<rparr>,
        \<lparr>blob_bytes = [], blob_type = ''video/webm''\<rparr>,
        \<lparr>blob_bytes = [223], blob_type = ''video/webm''\<rparr>]
   \<and> chunksRef (fst (start examplePlatform idleComponent)) =
       [\<lparr>blob_bytes = [26, 69], blob_type = ''video/webm''\<rparr>,
        \<lparr>blob_bytes = [223], blob_type = ''video/webm''\<rparr>]
   \<and> map_option blob_bytes (blobUrl (fst (start examplePlatform idleComponent))) =
       Some [26, 69, 223]"
proof -
  have d: "recState (fst (start examplePlatform idleComponent)) = Done"
    by (simp add: start_Done_iff example_succeeds)
  have f: "fragments examplePlatform =
       [\<lparr>blob_bytes = [26, 69], blob_type = ''video/webm''\<rparr>,
        \<lparr>blob_bytes = [], blob_type = ''video/webm''\<rparr>,
        \<lparr>blob_bytes = [223], blob_type = ''video/webm''\<rparr>]"
    by (simp add: examplePlatform_def exampleFragments_def)
  show ?thesis
    using artifact_is_concatenation [OF d, of "\<lparr>blob_bytes = [26, 69], blob_type = ''video/webm''\<rparr>"
        "\<lparr>blob_bytes = [], blob_type = ''video/webm''\<rparr>"
        "\<lparr>blob_bytes = [223], blob_type = ''video/webm''\<rparr>"] d f
    by (simp add: blob_size_def newBlob_def)
qed

subsection \<open>The buffer is reset in every run\<close>

lemma start_blobUrl_indep: "blobUrl (fst (start env st)) = blobUrl (fst (start env st'))"
  by (simp add: start_def Let_def catchError_def onstop_def deliver_fields deliver_chunks
      split: option.splits prod.splits outcome.splits)

lemma start_chunks_after_RecStart:
  "RecStart \<in> set (snd (start env st)) \<Longrightarrow>
     chunksRef (fst (start env st)) =
       (if recStart_throws env = None then filter (\<lambda>d. blob_size d \<noteq> 0) (fragments env) else [])"
  by (auto simp: start_def Let_def catchError_def onstop_def deliver_fields deliver_chunks
      split: option.splits prod.splits outcome.splits)

text \<open>
  C10. Whatever the buffer held before the run, once \<^verbatim>\<open>rec.start()\<close> has been reached the
  buffer holds only fragments of this run (none if \<^verbatim>\<open>rec.start()\<close> threw); the artifact
  does not depend on the component's earlier state, and in a run that ends in state \<open>Done\<close>
  its bytes are those of this run's fragments.
\<close>

theorem buffer_reset_each_run:
  "(RecStart \<in> set (snd (start env st)) \<longrightarrow>
      chunksRef (fst (start env st)) =
        (if recStart_throws env = None
         then filter (\<lambda>d. blob_size d \<noteq> 0) (fragments env) else []))
   \<and> blobUrl (fst (start env st)) = blobUrl (fst (start env st'))
   \<and> (recState (fst (start env st)) = Done \<longrightarrow>
        map_option blob_bytes (blobUrl (fst (start env st))) =
          Some (concat (map blob_bytes (fragments env))))"
proof -
  have "recState (fst (start env st)) = Done \<longrightarrow>
        map_option blob_bytes (blobUrl (fst (start env st))) =
          Some (concat (map blob_bytes (fragments env)))"
    by (simp add: start_Done_iff start_success onstop_def deliver_chunks newBlob_def concat_nonempty)
  then show ?thesis
    using start_chunks_after_RecStart [of env st] start_blobUrl_indep [of env st st'] by blast
qed

theorem buffer_reset_each_run_witness:
  "chunksRef staleComponent = [\<lparr>blob_bytes = [7, 7, 7], blob_type = ''video/webm''\<rparr>]
   \<and> RecStart \<in> set (snd (start examplePlatform staleComponent))
   \<and> recState (fst (start examplePlatform staleComponent)) = Done
   \<and> chunksRef (fst (start examplePlatform staleComponent)) =
       [\<lparr>blob_bytes = [26, 69], blob_type = ''video/webm''\<rparr>,
        \<lparr>blob_bytes = [223], blob_type = ''video/webm''\<rparr>]
   \<and> map_option blob_bytes (blobUrl (fst (start examplePlatform staleComponent))) =
       Some [26, 69, 223]
   \<and> blobUrl (fst (start examplePlatform staleComponent)) =
       blobUrl (fst (start examplePlatform idleComponent))"
proof -
  have d: "recState (fst (start examplePlatform staleComponent)) = Done"
    by (simp add: start_Done_iff example_succeeds)
  have r: "RecStart \<in> set (snd (start examplePlatform staleComponent))"
    by (simp add: start_success [OF example_succeeds])
  have f: "fragments examplePlatform = exampleFragments" "recStart_throws examplePlatform = None"
    by (simp_all add: examplePlatform_def)
  have s: "chunksRef staleComponent = [\<lparr>blob_bytes = [7, 7, 7], blob_type = ''video/webm''\<rparr>]"
    by (simp add: staleComponent_def)
  note t = buffer_reset_each_run [of examplePlatform staleComponent idleComponent]
  from t r have a: "chunksRef (fst (start examplePlatform staleComponent)) =
       [\<lparr>blob_bytes = [26, 69], blob_type = ''video/webm''\<rparr>,
        \<lparr>blob_bytes = [223], blob_type = ''video/webm''\<rparr>]"
    by (simp add: f exampleFragments_def blob_size_def)
  from t d have "map_option blob_bytes (blobUrl (fst (start examplePlatform staleComponent))) =
       Some (concat (map blob_bytes (fragments examplePlatform)))"
    by blast
  then have b: "map_option blob_bytes (blobUrl (fst (start examplePlatform staleComponent))) =
       Some [26, 69, 223]"
    by (simp add: f exampleFragments_def)
  from t have c: "blobUrl (fst (start examplePlatform staleComponent)) =
       blobUrl (fst (start examplePlatform idleComponent))"
    by blast
  from s r d a b c show ?thesis by blast
qed

subsection \<open>Format selection\<close>








subsection \<open>Failure\<close>

lemma animationLoop_not_Rejected: "snd (animationLoop m cv t0 rs) \<noteq> Rejected e"
  by (induction m cv t0 rs rule: animationLoop.induct) (auto split: prod.splits)

lemma playAnimation_Rejected:
  "snd (playAnimation cv env) = Rejected e \<Longrightarrow> playAnimation cv env = ([], Rejected e)"
  using animationLoop_not_Rejected [of "Math env" cv "clockStart env" "refreshes env" e]
  by (auto simp: playAnimation_def split: option.splits)

lemma start_rejected:
  assumes "captureStream_throws env = None"
    and "newMediaRecorder_throws env (getSupportedMimeType (isTypeSupported env)) = None"
    and "recStart_throws env = None"
    and "snd (playAnimation theCanvas env) = Rejected e"
  shows "start env st =
     (deliver (fragments env)
        (catchError e (st\<lparr>error := None, blobUrl := None, chunksRef := [],
           mediaRecorderRef := Some (getSupportedMimeType (isTypeSupported env)),
           recState := Recording\<rparr>)),
      [CaptureStream 30, NewMediaRecorder (getSupportedMimeType (isTypeSupported env)) 6000000,
       RecStart])"
  using assms playAnimation_Rejected [OF assms(4)]
  by (simp add: start_def Let_def)

lemma start_Error_no_artifact:
  "recState (fst (start env st)) = Error \<Longrightarrow>
     blobUrl (fst (start env st)) = None \<and> error (fst (start env st)) \<noteq> None"
  by (auto simp: start_def Let_def catchError_def onstop_def deliver_fields
      split: option.splits prod.splits outcome.splits)

text \<open>
  C5, as amended. An artifact exists if and only if the run ended in state \<open>Done\<close>, which
  is the case if and only if no step threw and the animation resolved. A run that ends in
  the error state has an error message and no artifact. When the animation promise
  rejects, the run ends in the error state with that error's message and without an
  artifact; the encoder had been started and \<^verbatim>\<open>rec.stop()\<close> is not called.
\<close>

theorem failure_reported_without_cleanup:
  "(blobUrl (fst (start env st)) \<noteq> None \<longleftrightarrow> recState (fst (start env st)) = Done)
   \<and> (recState (fst (start env st)) = Done \<longleftrightarrow> succeeds env)
   \<and> (recState (fst (start env st)) = Error \<longrightarrow>
        blobUrl (fst (start env st)) = None \<and> error (fst (start env st)) \<noteq> None)
   \<and> (captureStream_throws env = None
        \<and> newMediaRecorder_throws env (getSupportedMimeType (isTypeSupported env)) = None
        \<and> recStart_throws env = None
        \<and> snd (playAnimation theCanvas env) = Rejected e \<longrightarrow>
        recState (fst (start env st)) = Error
        \<and> error (fst (start env st)) = Some (errorMessage e)
        \<and> blobUrl (fst (start env st)) = None
        \<and> RecStart \<in> set (snd (start env st))
        \<and> RecStop \<notin> set (snd (start env st)))"
proof -
  have a: "blobUrl (fst (start env st)) \<noteq> None \<longleftrightarrow> recState (fst (start env st)) = Done"
    by (simp only: start_blobUrl_iff start_Done_iff)
  have d: "captureStream_throws env = None
        \<and> newMediaRecorder_throws env (getSupportedMimeType (isTypeSupported env)) = None
        \<and> recStart_throws env = None
        \<and> snd (playAnimation theCanvas env) = Rejected e \<longrightarrow>
        recState (fst (start env st)) = Error
        \<and> error (fst (start env st)) = Some (errorMessage e)
        \<and> blobUrl (fst (start env st)) = None
        \<and> RecStart \<in> set (snd (start env st))
        \<and> RecStop \<notin> set (snd (start env st))"
    by (simp add: start_rejected deliver_fields catchError_def)
  from a d start_Done_iff [of env st] start_Error_no_artifact [of env st] show ?thesis
    by blast
qed

theorem failure_reported_without_cleanup_witness:
  "snd (playAnimation theCanvas rejectingPlatform) =
       Rejected (Thrown (Some ''requestAnimationFrame is not defined''))
   \<and> recState (fst (start rejectingPlatform idleComponent)) = Error
   \<and> error (fst (start rejectingPlatform idleComponent)) =
       Some ''requestAnimationFrame is not defined''
   \<and> blobUrl (fst (start rejectingPlatform idleComponent)) = None
   \<and> RecStop \<notin> set (snd (start rejectingPlatform idleComponent))"
proof -
  have "getSupportedMimeType (isTypeSupported rejectingPlatform) = ''video/webm''"
    by (simp add: getSupportedMimeType_def candidates_def rejectingPlatform_def examplePlatform_def)
  then have p: "captureStream_throws rejectingPlatform = None"
    "newMediaRecorder_throws rejectingPlatform
       (getSupportedMimeType (isTypeSupported rejectingPlatform)) = None"
    "recStart_throws rejectingPlatform = None"
    "snd (playAnimation theCanvas rejectingPlatform) =
       Rejected (Thrown (Some ''requestAnimationFrame is not defined''))"
    by (simp_all add: rejectingPlatform_def examplePlatform_def playAnimation_def)
  show ?thesis
    using failure_reported_without_cleanup [of rejectingPlatform idleComponent
        "Thrown (Some ''requestAnimationFrame is not defined'')"]
    by (simp add: p)
qed

text \<open>
  C5 as stated fails: when \<^verbatim>\<open>playAnimation\<close> rejects, the run reports the error and never
  calls \<^verbatim>\<open>rec.stop()\<close>; when a frame callback throws, the run does not even reach the
  error state.
\<close>

theorem midrun_failure_counterexample:
  "snd (start rejectingPlatform idleComponent) =
       [CaptureStream 30, NewMediaRecorder ''video/webm'' 6000000, RecStart]
   \<and> recState (fst (start rejectingPlatform idleComponent)) = Error
   \<and> RecStop \<notin> set (snd (start rejectingPlatform idleComponent))
   \<and> snd (start throwingFramePlatform idleComponent) =
       [CaptureStream 30, NewMediaRecorder ''video/webm'' 6000000, RecStart,
        FrameThrew 1000 (Thrown (Some ''ctx.roundRect is not a function''))]
   \<and> recState (fst (start throwingFramePlatform idleComponent)) = Recording
   \<and> error (fst (start throwingFramePlatform idleComponent)) = None"
  by (simp add: rejectingPlatform_def throwingFramePlatform_def examplePlatform_def start_def
      getSupportedMimeType_def candidates_def playAnimation_def catchError_def deliver_fields
      Let_def)

end
